theory Spec2Isabelle
  imports Complex_Main "HOL-Library.Word" "HOL-Library.Sublist"
begin

section \<open>Python values used by \<open>message.py\<close>\<close>

text \<open>
  A payload byte is an 8-bit word; a \<open>bytearray\<close> is a list of bytes. Python's \<open>int\<close> is
  unbounded, so identifiers, length codes and flags are \<open>int\<close>.
\<close>

type_synonym byte = "8 word"

text \<open>
  A Python \<open>float\<close> is an IEEE 754 binary64 number: a finite number, one of the two
  infinities, or NaN. The finite number \<open>Fin m e\<close> is \<open>m * 2^e\<close>, an integer mantissa
  below \<open>2^53\<close> in magnitude and an exponent from \<open>-1074\<close> to \<open>971\<close>; \<open>Fin m e\<close> and
  \<open>Fin (2 * m) (e - 1)\<close> are the same number, and every operation below treats them
  alike. The sign of a zero is not kept: none of the operations the source applies to a
  timestamp (\<open><\<close>, \<open><=\<close>, \<open>==\<close>, \<open>-\<close>, \<open>abs\<close>, \<open>math.isinf\<close>, \<open>math.isnan\<close>)
  tells \<open>-0.0\<close> from \<open>0.0\<close>. A comparison with NaN is false.
\<close>

datatype pyfloat = Fin int int | PosInf | NegInf | NaN

definition is_double :: "pyfloat \<Rightarrow> bool" where
  "is_double x =
     (case x of Fin m e \<Rightarrow> \<bar>m\<bar> < 2 ^ 53 \<and> - 1074 \<le> e \<and> e \<le> 971 | _ \<Rightarrow> True)"

text \<open>The mantissa of \<open>m * 2^e\<close> at the smaller exponent \<open>E\<close>.\<close>

definition scaled :: "int \<Rightarrow> int \<Rightarrow> int \<Rightarrow> int" where
  "scaled m e E = m * 2 ^ nat (e - E)"

fun float_lt :: "pyfloat \<Rightarrow> pyfloat \<Rightarrow> bool" where
  "float_lt NaN _ = False"
| "float_lt _ NaN = False"
| "float_lt (Fin m1 e1) (Fin m2 e2) =
     (scaled m1 e1 (min e1 e2) < scaled m2 e2 (min e1 e2))"
| "float_lt (Fin _ _) PosInf = True"
| "float_lt (Fin _ _) NegInf = False"
| "float_lt PosInf _ = False"
| "float_lt NegInf NegInf = False"
| "float_lt NegInf _ = True"

fun float_le :: "pyfloat \<Rightarrow> pyfloat \<Rightarrow> bool" where
  "float_le NaN _ = False"
| "float_le _ NaN = False"
| "float_le (Fin m1 e1) (Fin m2 e2) =
     (scaled m1 e1 (min e1 e2) \<le> scaled m2 e2 (min e1 e2))"
| "float_le (Fin _ _) PosInf = True"
| "float_le (Fin _ _) NegInf = False"
| "float_le PosInf PosInf = True"
| "float_le PosInf _ = False"
| "float_le NegInf _ = True"

fun float_eq :: "pyfloat \<Rightarrow> pyfloat \<Rightarrow> bool" where
  "float_eq NaN _ = False"
| "float_eq _ NaN = False"
| "float_eq (Fin m1 e1) (Fin m2 e2) =
     (scaled m1 e1 (min e1 e2) = scaled m2 e2 (min e1 e2))"
| "float_eq a b = (a = b)"

text \<open>
  The number of binary digits of a non-negative integer, Python's \<open>int.bit_length\<close>.
\<close>

function bit_length :: "int \<Rightarrow> int" where
  "bit_length n = (if n \<le> 0 then 0 else 1 + bit_length (n div 2))"
  by pat_completeness auto
termination
  by (relation "measure nat") auto

declare bit_length.simps [simp del]

text \<open>
  Rounding to binary64, as every arithmetic operation of the hardware does: the double
  nearest to the exact number \<open>M * 2^E\<close>, a tie going to the even mantissa. \<open>s\<close> is the
  number of low bits that do not fit, either because the mantissa has more than 53 bits
  or because the exponent would fall below \<open>-1074\<close>; \<open>q\<close> is the mantissa without them
  and \<open>r\<close> the part cut off. A result of \<open>2^1024\<close> or more is an infinity.
\<close>

definition round_double :: "int \<Rightarrow> int \<Rightarrow> pyfloat" where
  "round_double M E =
     (let a = \<bar>M\<bar>;
          s = max (bit_length a - 53) (- 1074 - E)
      in if s \<le> 0 then Fin M E
         else
           let q = a div 2 ^ nat s;
               r = a mod 2 ^ nat s;
               half = 2 ^ nat (s - 1);
               q' = (if r > half \<or> (r = half \<and> odd q) then q + 1 else q)
           in if E + s > 971 \<or> (E + s = 971 \<and> q' = 2 ^ 53) then
                (if M < 0 then NegInf else PosInf)
              else if q' = 2 ^ 53 then Fin (sgn M * 2 ^ 52) (E + s + 1)
              else Fin (sgn M * q') (E + s))"

text \<open>\<open>x - y\<close>: the exact difference, rounded.\<close>

fun float_sub :: "pyfloat \<Rightarrow> pyfloat \<Rightarrow> pyfloat" where
  "float_sub NaN _ = NaN"
| "float_sub _ NaN = NaN"
| "float_sub (Fin m1 e1) (Fin m2 e2) =
     round_double (scaled m1 e1 (min e1 e2) - scaled m2 e2 (min e1 e2)) (min e1 e2)"
| "float_sub (Fin _ _) PosInf = NegInf"
| "float_sub (Fin _ _) NegInf = PosInf"
| "float_sub PosInf PosInf = NaN"
| "float_sub PosInf _ = PosInf"
| "float_sub NegInf NegInf = NaN"
| "float_sub NegInf _ = NegInf"

fun float_abs :: "pyfloat \<Rightarrow> pyfloat" where
  "float_abs (Fin m e) = Fin \<bar>m\<bar> e"
| "float_abs PosInf = PosInf"
| "float_abs NegInf = PosInf"
| "float_abs NaN = NaN"

fun isinf :: "pyfloat \<Rightarrow> bool" where
  "isinf PosInf = True"
| "isinf NegInf = True"
| "isinf _ = False"

fun isnan :: "pyfloat \<Rightarrow> bool" where
  "isnan NaN = True"
| "isnan _ = False"

text \<open>
  The float literals of the module and of the scenarios, each the double nearest to its
  decimal: \<open>0.0\<close>, \<open>1.0e-6\<close>, \<open>2e-6\<close> and \<open>1e-5\<close>.
\<close>

definition float_zero :: pyfloat where
  "float_zero = Fin 0 0"

definition float_1e_6 :: pyfloat where
  "float_1e_6 = Fin 4722366482869645 (- 72)"

definition float_2e_6 :: pyfloat where
  "float_2e_6 = Fin 4722366482869645 (- 71)"

definition float_1e_5 :: pyfloat where
  "float_1e_5 = Fin 5902958103587057 (- 69)"

text \<open>
  The exception classes that escape the module or the built-ins called on its objects,
  each with its message.
\<close>

datatype error = TypeError string | ValueError string | OverflowError string

text \<open>
  What a caller may pass as \<open>data\<close>: a \<open>bytes\<close> object, a \<open>bytearray\<close>, an integer, a
  sequence of integers, or something that is no payload at all (a \<open>str\<close> stands for it).
\<close>

datatype pydata =
    PyBytes "byte list"
  | PyByteArray "byte list"
  | PyInt int
  | PyInts "int list"
  | PyStr string

text \<open>
  The built-in \<open>bytearray(x)\<close>: a copy of a bytes-like object; \<open>n\<close> zero bytes for an
  integer \<open>n\<close>, which must not be negative; the bytes of a sequence of integers, each of
  which must lie in \<open>range(0, 256)\<close>; a \<open>TypeError\<close> for a string without an encoding.
\<close>

fun bytearray :: "pydata \<Rightarrow> error + byte list" where
  "bytearray (PyBytes bs) = Inr bs"
| "bytearray (PyByteArray bs) = Inr bs"
| "bytearray (PyInt n) =
     (if n < 0 then Inl (ValueError ''negative count'')
      else Inr (replicate (nat n) 0))"
| "bytearray (PyInts xs) =
     (if list_all (\<lambda>x. 0 \<le> x \<and> x < 256) xs then Inr (map word_of_int xs)
      else Inl (ValueError ''byte must be in range(0, 256)''))"
| "bytearray (PyStr s) = Inl (TypeError ''string argument without an encoding'')"

text \<open>\<open>str(n)\<close> for an integer, as the f-strings of \<open>_check\<close> render the length code.\<close>

fun str_nat :: "nat \<Rightarrow> string" where
  "str_nat n =
     (if n < 10 then [char_of (48 + n)]
      else str_nat (n div 10) @ [char_of (48 + n mod 10)])"

definition str_int :: "int \<Rightarrow> string" where
  "str_int i = (if i < 0 then CHR ''-'' # str_nat (nat (- i)) else str_nat (nat i))"

section \<open>The class \<open>Message\<close>\<close>

datatype channel = ChanInt int | ChanStr string

record Message =
  timestamp :: pyfloat
  can_id :: int
  is_extended_id :: bool
  is_remote_frame :: bool
  is_error_frame :: bool
  channel :: "channel option"
  dlc :: int
  data :: "byte list"
  is_fd :: bool
  is_rx :: bool
  bitrate_switch :: bool
  error_state_indicator :: bool

text \<open>
  The keyword arguments of \<open>Message.__init__\<close>; \<open>None\<close> is an omitted \<open>dlc\<close> or \<open>data\<close>.
  \<open>default_kwargs\<close> holds the defaults of the signature.
\<close>

record Message_kwargs =
  kw_timestamp :: pyfloat
  kw_id :: int
  kw_is_extended_id :: bool
  kw_is_remote_frame :: bool
  kw_is_error_frame :: bool
  kw_channel :: "channel option"
  kw_dlc :: "int option"
  kw_data :: "pydata option"
  kw_is_fd :: bool
  kw_is_rx :: bool
  kw_bitrate_switch :: bool
  kw_error_state_indicator :: bool
  kw_check :: bool

definition default_kwargs :: Message_kwargs where
  "default_kwargs =
     \<lparr> kw_timestamp = float_zero, kw_id = 0, kw_is_extended_id = True,
       kw_is_remote_frame = False, kw_is_error_frame = False, kw_channel = None,
       kw_dlc = None, kw_data = None, kw_is_fd = False, kw_is_rx = True,
       kw_bitrate_switch = False, kw_error_state_indicator = False, kw_check = False \<rparr>"

subsection \<open>\<open>Message._check\<close>\<close>

text \<open>
  \<open>_check\<close> is a sequence of blocks, each of which either raises or falls through to the
  next. \<open>and_then\<close> is that sequencing; every block keeps the nesting of the source.
\<close>

definition and_then :: "error + unit \<Rightarrow> error + unit \<Rightarrow> error + unit" where
  "and_then r k = (case r of Inl e \<Rightarrow> Inl e | Inr _ \<Rightarrow> k)"

definition check_timestamp :: "Message \<Rightarrow> error + unit" where
  "check_timestamp m =
     (if float_lt (timestamp m) float_zero then
        Inl (ValueError ''the timestamp may not be negative'')
      else if isinf (timestamp m) then
        Inl (ValueError ''the timestamp may not be infinite'')
      else if isnan (timestamp m) then
        Inl (ValueError ''the timestamp may not be NaN'')
      else Inr ())"

definition check_remote :: "Message \<Rightarrow> error + unit" where
  "check_remote m =
     (if is_remote_frame m then
        (if is_error_frame m then
           Inl (ValueError
             ''a message cannot be a remote and an error frame at the sane time'')
         else if is_fd m then
           Inl (ValueError ''CAN FD does not support remote frames'')
         else Inr ())
      else Inr ())"

definition check_id :: "Message \<Rightarrow> error + unit" where
  "check_id m =
     (if can_id m < 0 then
        Inl (ValueError ''arbitration IDs may not be negative'')
      else if is_extended_id m then
        (if can_id m \<ge> 0x20000000 then
           Inl (ValueError ''Extended arbitration IDs must be less than 2^29'')
         else Inr ())
      else if can_id m \<ge> 0x800 then
        Inl (ValueError ''Normal arbitration IDs must be less than 2^11'')
      else Inr ())"

definition check_dlc :: "Message \<Rightarrow> error + unit" where
  "check_dlc m =
     (if dlc m < 0 then
        Inl (ValueError ''DLC may not be negative'')
      else if is_fd m then
        (if dlc m > 64 then
           Inl (ValueError (''DLC was '' @ str_int (dlc m) @
                  '' but it should be <= 64 for CAN FD frames''))
         else Inr ())
      else if dlc m > 8 then
        Inl (ValueError (''DLC was '' @ str_int (dlc m) @
               '' but it should be <= 8 for normal CAN frames''))
      else Inr ())"

definition check_payload :: "Message \<Rightarrow> error + unit" where
  "check_payload m =
     (if is_remote_frame m then
        (if data m \<noteq> [] then
           Inl (ValueError ''remote frames may not carry any data'')
         else Inr ())
      else if dlc m \<noteq> int (length (data m)) then
        Inl (ValueError
          ''the DLC and the length of the data must match up for non remote frames'')
      else Inr ())"

definition check_fd_flags :: "Message \<Rightarrow> error + unit" where
  "check_fd_flags m =
     (if \<not> is_fd m then
        (if bitrate_switch m then
           Inl (ValueError ''bitrate switch is only allowed for CAN FD frames'')
         else if error_state_indicator m then
           Inl (ValueError ''error state indicator is only allowed for CAN FD frames'')
         else Inr ())
      else Inr ())"

definition Message_check :: "Message \<Rightarrow> error + unit" where
  "Message_check m =
     and_then (check_timestamp m)
    (and_then (check_remote m)
    (and_then (check_id m)
    (and_then (check_dlc m)
    (and_then (check_payload m)
              (check_fd_flags m)))))"

subsection \<open>\<open>Message.__init__\<close>\<close>

text \<open>
  The payload the constructor stores: empty when \<open>data\<close> is omitted or the frame is a
  remote frame; a \<open>bytearray\<close> as it is; anything else through \<open>bytearray(data)\<close>, where
  only a \<open>TypeError\<close> is caught and raised again with the module's own message. Any other
  exception of the conversion leaves the constructor unchanged.
\<close>

definition str_data :: "pydata \<Rightarrow> string" where
  "str_data d = (case d of PyStr s \<Rightarrow> s | _ \<Rightarrow> [])"

definition init_data :: "pydata option \<Rightarrow> bool \<Rightarrow> error + byte list" where
  "init_data d remote =
     (case d of
        None \<Rightarrow> Inr []
      | Some x \<Rightarrow>
          if remote then Inr []
          else (case x of
                  PyByteArray bs \<Rightarrow> Inr bs
                | _ \<Rightarrow>
                    (case bytearray x of
                       Inl (TypeError _) \<Rightarrow>
                         Inl (TypeError (''Couldn't create message from '' @ str_data x @
                                '' (<class 'str'>)''))
                     | Inl e \<Rightarrow> Inl e
                     | Inr bs \<Rightarrow> Inr bs)))"

text \<open>The attribute assignments of \<open>__init__\<close>, given the payload to store.\<close>

definition init_fields :: "Message_kwargs \<Rightarrow> byte list \<Rightarrow> Message" where
  "init_fields kw bs =
     \<lparr> timestamp = kw_timestamp kw, can_id = kw_id kw,
       is_extended_id = kw_is_extended_id kw,
       is_remote_frame = kw_is_remote_frame kw,
       is_error_frame = kw_is_error_frame kw,
       channel = kw_channel kw,
       dlc = (case kw_dlc kw of None \<Rightarrow> int (length bs) | Some n \<Rightarrow> n),
       data = bs,
       is_fd = kw_is_fd kw, is_rx = kw_is_rx kw,
       bitrate_switch = kw_bitrate_switch kw,
       error_state_indicator = kw_error_state_indicator kw \<rparr>"

definition Message_init :: "Message_kwargs \<Rightarrow> error + Message" where
  "Message_init kw =
     (case init_data (kw_data kw) (kw_is_remote_frame kw) of
        Inl e \<Rightarrow> Inl e
      | Inr bs \<Rightarrow>
          let m = init_fields kw bs
          in if kw_check kw
             then (case Message_check m of Inl e \<Rightarrow> Inl e | Inr _ \<Rightarrow> Inr m)
             else Inr m)"

text \<open>\<open>Message.__len__\<close> returns the length code.\<close>

definition Message_len :: "Message \<Rightarrow> int" where
  "Message_len m = dlc m"

text \<open>
  The built-in \<open>len(m)\<close> calls \<open>__len__\<close> and takes its result for a length only
  from 0 to \<open>sys.maxsize\<close>, the largest index of the platform (a parameter here): a
  negative result is a \<open>ValueError\<close>, a larger one an \<open>OverflowError\<close>.
\<close>

definition len_builtin :: "int \<Rightarrow> Message \<Rightarrow> error + int" where
  "len_builtin maxsize m =
     (let n = Message_len m
      in if n < 0 then Inl (ValueError ''__len__() should return >= 0'')
         else if n > maxsize then
           Inl (OverflowError ''cannot fit 'int' into an index-sized integer'')
         else Inr n)"

subsection \<open>Instances and identity\<close>

text \<open>
  A \<open>Message\<close> is an object: two instances may hold the same fields and still be two
  objects. The instances live in a store, a list of objects in the order of their
  creation; a reference is the position of an object in it. \<open>Message_new\<close> is the
  constructor call: it runs \<open>__init__\<close> and, when that returns, puts the new object at a
  fresh position.
\<close>

type_synonym ref = nat
type_synonym store = "Message list"

definition Message_new :: "store \<Rightarrow> Message_kwargs \<Rightarrow> error + (store \<times> ref)" where
  "Message_new h kw =
     (case Message_init kw of
        Inl e \<Rightarrow> Inl e
      | Inr m \<Rightarrow> Inr (h @ [m], length h))"

text \<open>
  The class defines neither \<open>__eq__\<close> nor \<open>__hash__\<close>, so \<open>x == y\<close> is the comparison
  inherited from \<open>object\<close>: true exactly for one and the same instance.
\<close>

definition Message_eq :: "ref \<Rightarrow> ref \<Rightarrow> bool" where
  "Message_eq x y = (x = y)"

subsection \<open>\<open>Message.equals\<close>\<close>

text \<open>
  The default of \<open>timestamp_delta\<close> is \<open>1.0e-6\<close>; \<open>None\<close> switches the comparison of
  the timestamps off.
\<close>

definition default_timestamp_delta :: "pyfloat option" where
  "default_timestamp_delta = Some float_1e_6"

text \<open>The comparison by value: the second operand of the \<open>or\<close>, in the source's order.\<close>

definition equals_by_value ::
  "Message \<Rightarrow> Message \<Rightarrow> pyfloat option \<Rightarrow> bool \<Rightarrow> bool \<Rightarrow> bool" where
  "equals_by_value self other timestamp_delta check_channel check_direction =
     ((case timestamp_delta of
         None \<Rightarrow> True
       | Some delta \<Rightarrow>
           float_le (float_abs (float_sub (timestamp self) (timestamp other))) delta)
      \<and> (is_rx self = is_rx other \<or> \<not> check_direction)
      \<and> can_id self = can_id other
      \<and> is_extended_id self = is_extended_id other
      \<and> dlc self = dlc other
      \<and> data self = data other
      \<and> is_remote_frame self = is_remote_frame other
      \<and> is_error_frame self = is_error_frame other
      \<and> (channel self = channel other \<or> \<not> check_channel)
      \<and> is_fd self = is_fd other
      \<and> bitrate_switch self = bitrate_switch other
      \<and> error_state_indicator self = error_state_indicator other)"

text \<open>
  \<open>x.equals(y, ...)\<close> on two references into the store: identity first, then the
  comparison by value. A reference outside the store denotes no object (\<open>None\<close>).
\<close>

definition equals ::
  "store \<Rightarrow> ref \<Rightarrow> ref \<Rightarrow> pyfloat option \<Rightarrow> bool \<Rightarrow> bool \<Rightarrow> bool option" where
  "equals h self other timestamp_delta check_channel check_direction =
     (if self < length h \<and> other < length h then
        Some (self = other
              \<or> equals_by_value (h ! self) (h ! other)
                   timestamp_delta check_channel check_direction)
      else None)"

text \<open>
  The value equality in the words of the specification, to compare \<open>equals\<close> with: the
  nine fields that must match exactly, the channel unless \<open>check_channel\<close> is false, the
  direction unless \<open>check_direction\<close> is false, and the timestamps within the tolerance
  unless that is \<open>None\<close>.
\<close>

definition exact_fields_match :: "Message \<Rightarrow> Message \<Rightarrow> bool" where
  "exact_fields_match a b =
     (can_id a = can_id b \<and> is_extended_id a = is_extended_id b \<and> dlc a = dlc b
      \<and> data a = data b \<and> is_remote_frame a = is_remote_frame b
      \<and> is_error_frame a = is_error_frame b \<and> is_fd a = is_fd b
      \<and> bitrate_switch a = bitrate_switch b
      \<and> error_state_indicator a = error_state_indicator b)"

definition within_delta :: "pyfloat \<Rightarrow> pyfloat \<Rightarrow> pyfloat option \<Rightarrow> bool" where
  "within_delta s t timestamp_delta =
     (case timestamp_delta of
        None \<Rightarrow> True
      | Some d \<Rightarrow> float_le (float_abs (float_sub s t)) d)"

definition equals_spec ::
  "Message \<Rightarrow> Message \<Rightarrow> pyfloat option \<Rightarrow> bool \<Rightarrow> bool \<Rightarrow> bool" where
  "equals_spec a b timestamp_delta check_channel check_direction =
     (exact_fields_match a b
      \<and> (if check_channel then channel a = channel b else True)
      \<and> (if check_direction then is_rx a = is_rx b else True)
      \<and> within_delta (timestamp a) (timestamp b) timestamp_delta)"

section \<open>The class \<open>LinMessage\<close>\<close>

text \<open>
  \<open>info\<close> holds a \<open>LinMessageInfo\<close>, a \<open>ctypes.Structure\<close> filled by the driver; the
  class compares it with \<open>==\<close> only, and a structure has no \<open>__eq__\<close> of its own, so
  a reference to the structure is all that the model keeps of it.
\<close>

record LinMessage =
  lin_id :: int
  lin_data :: "byte list"
  lin_dlc :: int
  lin_flags :: int
  lin_crc :: "int option"
  lin_info :: "ref option"
  lin_timestamp :: "pyfloat option"

text \<open>\<open>data.extend([0] * n)\<close>: a list repeated a negative number of times is empty.\<close>

definition extend_zeros :: "byte list \<Rightarrow> int \<Rightarrow> byte list" where
  "extend_zeros d n = d @ replicate (nat n) 0"

text \<open>The ladder of the branch \<open>dlc is None\<close>, on the length of the payload.\<close>

definition dlc_of_len :: "int \<Rightarrow> int" where
  "dlc_of_len len =
     (if len \<le> 8 then len
      else if len \<le> 12 then 12
      else if len \<le> 16 then 16
      else if len \<le> 20 then 20
      else if len \<le> 24 then 24
      else if len \<le> 32 then 32
      else if len \<le> 48 then 48
      else 64)"

definition LinMessage_init ::
  "int \<Rightarrow> pydata \<Rightarrow> int option \<Rightarrow> int \<Rightarrow> pyfloat option \<Rightarrow> int option \<Rightarrow> ref option
     \<Rightarrow> error + LinMessage" where
  "LinMessage_init ident d dlc_arg flags ts crc info =
     (case bytearray d of
        Inl e \<Rightarrow> Inl e
      | Inr bs \<Rightarrow>
          let len = int (length bs);
              n = (case dlc_arg of None \<Rightarrow> dlc_of_len len | Some k \<Rightarrow> k);
              bs' = (case dlc_arg of
                       None \<Rightarrow> if n > len then extend_zeros bs (n - len) else bs
                     | Some k \<Rightarrow> if k \<le> 8 then extend_zeros bs (k - len) else bs)
          in Inr \<lparr> lin_id = ident, lin_data = bs', lin_dlc = n, lin_flags = flags,
                   lin_crc = crc, lin_info = info, lin_timestamp = ts \<rparr>)"

subsection \<open>\<open>LinMessage.__eq__\<close>\<close>

text \<open>
  \<open>__eq__\<close> walks \<open>_eq_slots\<close>, which is \<open>__slots__\<close> without its last name, and
  compares the attributes of the two objects slot by slot with \<open>==\<close>. An attribute is read
  by its name (\<open>getattr\<close>) and is a value of one of the kinds below; \<open>py_eq\<close> is \<open>==\<close>
  on them.
\<close>

datatype pyval = VInt int | VBytes "byte list" | VFloat pyfloat | VRef ref | VNone

fun py_eq :: "pyval \<Rightarrow> pyval \<Rightarrow> bool" where
  "py_eq (VFloat a) (VFloat b) = float_eq a b"
| "py_eq a b = (a = b)"

definition slots :: "string list" where
  "slots = [''id'', ''data'', ''dlc'', ''flags'', ''crc'', ''info'', ''timestamp'']"

definition eq_slots :: "string list" where
  "eq_slots = butlast slots"

definition opt_val :: "('a \<Rightarrow> pyval) \<Rightarrow> 'a option \<Rightarrow> pyval" where
  "opt_val f x = (case x of None \<Rightarrow> VNone | Some v \<Rightarrow> f v)"

definition getattr :: "LinMessage \<Rightarrow> string \<Rightarrow> pyval" where
  "getattr m slot =
     (if slot = ''id'' then VInt (lin_id m)
      else if slot = ''data'' then VBytes (lin_data m)
      else if slot = ''dlc'' then VInt (lin_dlc m)
      else if slot = ''flags'' then VInt (lin_flags m)
      else if slot = ''crc'' then opt_val VInt (lin_crc m)
      else if slot = ''info'' then opt_val VRef (lin_info m)
      else if slot = ''timestamp'' then opt_val VFloat (lin_timestamp m)
      else VNone)"

definition LinMessage_eq :: "LinMessage \<Rightarrow> LinMessage \<Rightarrow> bool" where
  "LinMessage_eq self other =
     list_all (\<lambda>slot. py_eq (getattr self slot) (getattr other slot)) eq_slots"

section \<open>Notions of the specification\<close>

text \<open>
  The invariant set of a frame, read on the stored fields: the frame violates it when the
  timestamp is negative, infinite or NaN; when it is a remote and an error frame at once;
  when it is a remote frame with \<open>is_fd\<close>; when the identifier is negative or outside its
  identifier space; when the length code is negative or above the limit of the framing;
  when a remote frame carries a payload; when the length code of any other frame differs
  from the length of the payload; when \<open>bitrate_switch\<close> or \<open>error_state_indicator\<close>
  is set without \<open>is_fd\<close>.
\<close>

definition violated_invariant :: "Message \<Rightarrow> bool" where
  "violated_invariant m =
     (float_lt (timestamp m) float_zero \<or> isinf (timestamp m) \<or> isnan (timestamp m)
      \<or> (is_remote_frame m \<and> is_error_frame m)
      \<or> (is_remote_frame m \<and> is_fd m)
      \<or> can_id m < 0
      \<or> (if is_extended_id m then can_id m \<ge> 2 ^ 29 else can_id m \<ge> 2 ^ 11)
      \<or> dlc m < 0
      \<or> (if is_fd m then dlc m > 64 else dlc m > 8)
      \<or> (is_remote_frame m \<and> data m \<noteq> [])
      \<or> (\<not> is_remote_frame m \<and> dlc m \<noteq> int (length (data m)))
      \<or> ((bitrate_switch m \<or> error_state_indicator m) \<and> \<not> is_fd m))"

text \<open>The real number a finite double stands for.\<close>

definition float_value :: "int \<Rightarrow> int \<Rightarrow> real" where
  "float_value m e = real_of_int m * 2 powr real_of_int e"

text \<open>A call raises a \<open>ValueError\<close>, whatever its message.\<close>

definition raises_ValueError :: "error + 'a \<Rightarrow> bool" where
  "raises_ValueError r = (case r of Inl (ValueError _) \<Rightarrow> True | _ \<Rightarrow> False)"

text \<open>The quantisation ladder of the length code of a \<open>LinMessage\<close>.\<close>

definition ladder :: "int list" where
  "ladder = [0, 1, 2, 3, 4, 5, 6, 7, 8, 12, 16, 20, 24, 32, 48, 64]"

text \<open>The frame \<open>Message()\<close>, every argument at its default.\<close>

definition default_message :: Message where
  "default_message =
     \<lparr> timestamp = float_zero, can_id = 0, is_extended_id = True, is_remote_frame = False,
       is_error_frame = False, channel = None, dlc = 0, data = [], is_fd = False,
       is_rx = True, bitrate_switch = False, error_state_indicator = False \<rparr>"

section \<open>Arithmetic of timestamps\<close>

text \<open>
  The comparisons of the model are the comparisons of the numbers the doubles stand for.
\<close>

lemma scaled_value:
  assumes "E \<le> e"
  shows "real_of_int (scaled m e E) * 2 powr real_of_int E = float_value m e"
proof -
  have "(2::real) ^ nat (e - E) = 2 powr real_of_int (e - E)"
    using assms by (simp add: powr_realpow [symmetric])
  then have "real_of_int (scaled m e E) * 2 powr real_of_int E
               = real_of_int m * (2 powr real_of_int (e - E) * 2 powr real_of_int E)"
    by (simp add: scaled_def)
  also have "2 powr real_of_int (e - E) * 2 powr real_of_int E = (2::real) powr real_of_int e"
    by (simp add: powr_add [symmetric])
  finally show ?thesis by (simp add: float_value_def)
qed

lemma float_le_value:
  "float_le (Fin m1 e1) (Fin m2 e2) \<longleftrightarrow> float_value m1 e1 \<le> float_value m2 e2"
proof -
  let ?E = "min e1 e2"
  have p: "0 < (2::real) powr real_of_int ?E" by simp
  have "float_value m1 e1 \<le> float_value m2 e2 \<longleftrightarrow>
          real_of_int (scaled m1 e1 ?E) * 2 powr real_of_int ?E
            \<le> real_of_int (scaled m2 e2 ?E) * 2 powr real_of_int ?E"
    by (simp only: scaled_value [OF min.cobounded1] scaled_value [OF min.cobounded2])
  also have "\<dots> \<longleftrightarrow> real_of_int (scaled m1 e1 ?E) \<le> real_of_int (scaled m2 e2 ?E)"
    using p by (simp only: mult_le_cancel_right_pos)
  finally show ?thesis by simp
qed

lemma float_lt_value:
  "float_lt (Fin m1 e1) (Fin m2 e2) \<longleftrightarrow> float_value m1 e1 < float_value m2 e2"
proof -
  let ?E = "min e1 e2"
  have p: "0 < (2::real) powr real_of_int ?E" by simp
  have "float_value m1 e1 < float_value m2 e2 \<longleftrightarrow>
          real_of_int (scaled m1 e1 ?E) * 2 powr real_of_int ?E
            < real_of_int (scaled m2 e2 ?E) * 2 powr real_of_int ?E"
    by (simp only: scaled_value [OF min.cobounded1] scaled_value [OF min.cobounded2])
  also have "\<dots> \<longleftrightarrow> real_of_int (scaled m1 e1 ?E) < real_of_int (scaled m2 e2 ?E)"
    using p by (simp only: mult_less_cancel_right_pos)
  finally show ?thesis by simp
qed

lemma float_eq_value:
  "float_eq (Fin m1 e1) (Fin m2 e2) \<longleftrightarrow> float_value m1 e1 = float_value m2 e2"
proof -
  let ?E = "min e1 e2"
  have p: "(2::real) powr real_of_int ?E \<noteq> 0" by simp
  have "float_value m1 e1 = float_value m2 e2 \<longleftrightarrow>
          real_of_int (scaled m1 e1 ?E) * 2 powr real_of_int ?E
            = real_of_int (scaled m2 e2 ?E) * 2 powr real_of_int ?E"
    by (simp only: scaled_value [OF min.cobounded1] scaled_value [OF min.cobounded2])
  also have "\<dots> \<longleftrightarrow> real_of_int (scaled m1 e1 ?E) = real_of_int (scaled m2 e2 ?E)"
    using p by (simp only: mult_cancel_right) simp
  finally show ?thesis by simp
qed

lemma float_lt_not_le: "float_lt a b \<Longrightarrow> \<not> float_le b a"
  by (cases a; cases b) (simp_all add: min.commute)

lemma float_eq_le_cong:
  assumes "float_eq d (Fin m e)"
  shows "float_le d (Fin p k) = float_le (Fin m e) (Fin p k)"
proof (cases d)
  case (Fin m' e')
  with assms show ?thesis by (simp only: float_le_value float_eq_value)
qed (use assms in simp_all)



text \<open>The float literals are the doubles nearest to their decimals.\<close>

lemma float_value_neg: "float_value m (- int n) = real_of_int m / 2 ^ n"
  by (simp add: float_value_def powr_minus powr_realpow divide_inverse)

lemma float_1e_6_nearest:
  "\<bar>float_value 4722366482869645 (- 72) - 1 / 1000000\<bar> \<le> 1 / 2 ^ 73"
  using float_value_neg [of 4722366482869645 72] by simp

lemma float_2e_6_nearest:
  "\<bar>float_value 4722366482869645 (- 71) - 2 / 1000000\<bar> \<le> 1 / 2 ^ 72"
  using float_value_neg [of 4722366482869645 71] by simp

lemma float_1e_5_nearest:
  "\<bar>float_value 5902958103587057 (- 69) - 1 / 100000\<bar> \<le> 1 / 2 ^ 70"
  using float_value_neg [of 5902958103587057 69] by simp

lemma literal_order:
  "float_lt float_1e_6 float_2e_6" "float_le float_2e_6 float_1e_5"
  "\<not> float_le float_2e_6 float_1e_6"
  by (simp_all add: float_1e_6_def float_2e_6_def float_1e_5_def scaled_def)

text \<open>
  Subtraction rounds: a difference that fits is exact, a tie goes to the even mantissa,
  anything else to the nearer double; the largest double minus its negative is an
  infinity.
\<close>

lemma float_sub_exact_example:
  "float_sub (Fin 7130316800000000 (- 22)) (Fin 7130316800000008 (- 22)) = Fin (- 8) (- 22)"
  by code_simp

lemma float_sub_rounds_to_even:
  "float_sub (Fin 4503599627370497 1) (Fin 4503599627370496 (- 52)) = Fin 4503599627370496 1"
  by code_simp

lemma float_sub_tie_up:
  "float_sub (Fin 4503599627370497 1) (Fin (- 1) 0) = Fin 4503599627370498 1"
  by code_simp

lemma float_sub_rounds_up:
  "float_sub (Fin 4503599627370498 1) (Fin (- 3) (- 1)) = Fin 4503599627370499 1"
  by code_simp

lemma float_sub_overflow:
  "float_sub (Fin 9007199254740991 971) (Fin (- 9007199254740991) 971) = PosInf"
  by code_simp

lemma float_sub_subnormal:
  "float_sub (Fin 3 (- 1074)) (Fin 1 (- 1074)) = Fin 2 (- 1074)"
  by code_simp

lemma bit_length_0 [simp]: "bit_length 0 = 0"
  by (subst bit_length.simps) simp

lemma round_double_zero: "\<exists>E'. round_double 0 E = Fin 0 E'"
  by (simp add: round_double_def Let_def)

lemma float_sub_self: "\<exists>E'. float_sub (Fin m e) (Fin m e) = Fin 0 E'"
  using round_double_zero by simp

lemma within_default_delta_refl:
  assumes "\<not> isinf t" and "\<not> isnan t"
  shows "float_le (float_abs (float_sub t t)) float_1e_6"
proof (cases t)
  case (Fin m e)
  obtain E' where "float_sub (Fin m e) (Fin m e) = Fin 0 E'"
    using float_sub_self by blast
  with Fin show ?thesis
    by (simp add: float_1e_6_def scaled_def)
qed (use assms in simp_all)

lemma bit_length_nonneg: "0 \<le> bit_length n"
proof (induction n rule: bit_length.induct)
  case (1 n)
  then show ?case by (subst bit_length.simps) simp
qed

lemma bit_length_bound: "n < 2 ^ nat (bit_length n)"
proof (induction n rule: bit_length.induct)
  case (1 n)
  show ?case
  proof (cases "n \<le> 0")
    case True
    then have "n < 1" by simp
    also have "(1::int) \<le> 2 ^ nat (bit_length n)" by simp
    finally show ?thesis .
  next
    case False
    then have ih: "n div 2 < 2 ^ nat (bit_length (n div 2))" using 1 by simp
    have bl: "bit_length n = 1 + bit_length (n div 2)"
      using False by (subst bit_length.simps) simp
    have "nat (bit_length n) = Suc (nat (bit_length (n div 2)))"
      using bit_length_nonneg [of "n div 2"] by (simp add: bl nat_add_distrib)
    moreover have "n < 2 * (n div 2 + 1)" by presburger
    ultimately show ?thesis using ih by simp
  qed
qed

lemma int_div_less:
  fixes a k p :: int
  assumes "a < k * p" and "0 < p"
  shows "a div p < k"
proof (rule ccontr)
  assume "\<not> a div p < k"
  then have "k * p \<le> (a div p) * p"
    using assms(2) by (simp add: mult_right_mono)
  also have "(a div p) * p = a - a mod p"
    by (simp add: minus_mod_eq_div_mult)
  also have "\<dots> \<le> a"
    using assms(2) by simp
  finally show False using assms(1) by simp
qed

lemma round_quotient_bound:
  assumes "bit_length a - 53 \<le> s" and "0 < s"
  shows "a div 2 ^ nat s < 2 ^ 53"
proof -
  have "nat (bit_length a) \<le> 53 + nat s"
    using assms by linarith
  then have "(2::int) ^ nat (bit_length a) \<le> 2 ^ (53 + nat s)"
    by (rule power_increasing) simp
  with bit_length_bound [of a] have "a < 2 ^ 53 * 2 ^ nat s"
    by (simp add: power_add)
  then show ?thesis
    by (rule int_div_less) simp
qed

text \<open>A rounded number is a double, and so is the difference of two doubles.\<close>

lemma round_double_is_double:
  assumes "- 1074 \<le> E" and "E \<le> 971"
  shows "is_double (round_double M E)"
proof -
  define a where "a = \<bar>M\<bar>"
  define s where "s = max (bit_length a - 53) (- 1074 - E)"
  show ?thesis
  proof (cases "s \<le> 0")
    case True
    then have "nat (bit_length a) \<le> 53"
      by (simp add: s_def nat_le_iff)
    then have "(2::int) ^ nat (bit_length a) \<le> 2 ^ 53"
      by (rule power_increasing) simp
    with bit_length_bound [of a] have "\<bar>M\<bar> < 2 ^ 53"
      by (simp add: a_def)
    moreover have "round_double M E = Fin M E"
      using True unfolding s_def a_def by (simp add: round_double_def Let_def)
    ultimately show ?thesis
      using assms by (simp add: is_double_def)
  next
    case False
    define q where "q = a div 2 ^ nat s"
    define r where "r = a mod 2 ^ nat s"
    define q' where "q' = (if r > 2 ^ nat (s - 1) \<or> (r = 2 ^ nat (s - 1) \<and> odd q) then q + 1 else q)"
    have q0: "0 \<le> q"
      by (simp add: q_def a_def pos_imp_zdiv_nonneg_iff)
    have s1: "bit_length a - 53 \<le> s"
      by (simp add: s_def)
    have s2: "0 < s"
      using False by simp
    have q53: "q < 2 ^ 53"
      unfolding q_def using s1 s2 by (rule round_quotient_bound)
    have q'b: "0 \<le> q'" "q' \<le> 2 ^ 53"
      using q0 q53 by (simp_all add: q'_def)
    have s_low: "- 1074 \<le> E + s"
      by (simp add: s_def)
    have abs_sgn: "\<bar>sgn M * q'\<bar> \<le> q'"
      using q'b(1) by (simp add: abs_mult abs_sgn_eq)
    have ns: "\<not> max (bit_length \<bar>M\<bar> - 53) (- 1074 - E) \<le> 0"
      using False by (simp add: s_def a_def)
    have rd: "round_double M E =
        (if E + s > 971 \<or> (E + s = 971 \<and> q' = 2 ^ 53) then
           (if M < 0 then NegInf else PosInf)
         else if q' = 2 ^ 53 then Fin (sgn M * 2 ^ 52) (E + s + 1)
         else Fin (sgn M * q') (E + s))"
      unfolding round_double_def Let_def q'_def q_def r_def s_def a_def
      by (simp only: ns if_False)
    have "\<bar>sgn M * 2 ^ 52\<bar> < (2::int) ^ 53"
      by (simp add: abs_mult abs_sgn_eq)
    then show ?thesis
      unfolding rd using q'b abs_sgn s_low
      by (auto simp: is_double_def)
  qed
qed

lemma float_sub_is_double:
  assumes "is_double x" and "is_double y"
  shows "is_double (float_sub x y)"
proof (cases x; cases y)
  fix m1 e1 m2 e2
  assume xy: "x = Fin m1 e1" "y = Fin m2 e2"
  with assms have "- 1074 \<le> min e1 e2" and "min e1 e2 \<le> 971"
    by (auto simp: is_double_def)
  then have "is_double (round_double (scaled m1 e1 (min e1 e2) - scaled m2 e2 (min e1 e2))
                          (min e1 e2))"
    by (rule round_double_is_double)
  with xy show ?thesis by simp
qed (simp_all add: is_double_def)

section \<open>Validation at construction\<close>

lemma and_then_Inr: "and_then r k = Inr () \<longleftrightarrow> r = Inr () \<and> k = Inr ()"
  by (cases r) (simp_all add: and_then_def)

lemma check_timestamp_ok:
  "check_timestamp m = Inr () \<longleftrightarrow>
     \<not> (float_lt (timestamp m) float_zero \<or> isinf (timestamp m) \<or> isnan (timestamp m))"
  by (simp add: check_timestamp_def)

lemma check_remote_ok:
  "check_remote m = Inr () \<longleftrightarrow>
     \<not> ((is_remote_frame m \<and> is_error_frame m) \<or> (is_remote_frame m \<and> is_fd m))"
  by (simp add: check_remote_def)

lemma check_id_ok:
  "check_id m = Inr () \<longleftrightarrow>
     \<not> (can_id m < 0 \<or> (if is_extended_id m then can_id m \<ge> 2 ^ 29 else can_id m \<ge> 2 ^ 11))"
  by (simp add: check_id_def)

lemma check_dlc_ok:
  "check_dlc m = Inr () \<longleftrightarrow> \<not> (dlc m < 0 \<or> (if is_fd m then dlc m > 64 else dlc m > 8))"
  by (simp add: check_dlc_def)

lemma check_payload_ok:
  "check_payload m = Inr () \<longleftrightarrow>
     \<not> ((is_remote_frame m \<and> data m \<noteq> [])
        \<or> (\<not> is_remote_frame m \<and> dlc m \<noteq> int (length (data m))))"
  by (simp add: check_payload_def)

lemma check_fd_flags_ok:
  "check_fd_flags m = Inr () \<longleftrightarrow>
     \<not> ((bitrate_switch m \<or> error_state_indicator m) \<and> \<not> is_fd m)"
  by (auto simp add: check_fd_flags_def)

text \<open>\<open>_check\<close> returns exactly on the frames that keep every invariant.\<close>

lemma Message_check_ok: "Message_check m = Inr () \<longleftrightarrow> \<not> violated_invariant m"
  unfolding Message_check_def violated_invariant_def and_then_Inr
  unfolding check_timestamp_ok check_remote_ok check_id_ok check_dlc_ok
    check_payload_ok check_fd_flags_ok
  by blast

lemma raises_ValueError_simps [simp]:
  "raises_ValueError (Inr x) = False"
  "raises_ValueError (Inl (ValueError s)) = True"
  "raises_ValueError (Inl (TypeError s)) = False"
  "raises_ValueError (Inl (OverflowError s)) = False"
  by (simp_all add: raises_ValueError_def)

lemma raises_ValueError_Inl:
  "raises_ValueError (Inl e) = (case e of ValueError _ \<Rightarrow> True | _ \<Rightarrow> False)"
  by (cases e) simp_all

lemma block_cases:
  "check_timestamp m = Inr () \<or> raises_ValueError (check_timestamp m)"
  "check_remote m = Inr () \<or> raises_ValueError (check_remote m)"
  "check_id m = Inr () \<or> raises_ValueError (check_id m)"
  "check_dlc m = Inr () \<or> raises_ValueError (check_dlc m)"
  "check_payload m = Inr () \<or> raises_ValueError (check_payload m)"
  "check_fd_flags m = Inr () \<or> raises_ValueError (check_fd_flags m)"
  by (simp_all add: check_timestamp_def check_remote_def
        check_id_def check_dlc_def check_payload_def check_fd_flags_def)

lemma and_then_cases:
  "r = Inr () \<or> raises_ValueError r \<Longrightarrow> k = Inr () \<or> raises_ValueError k
     \<Longrightarrow> and_then r k = Inr () \<or> raises_ValueError (and_then r k)"
  by (cases r) (auto simp: and_then_def)

lemma Message_check_cases:
  "Message_check m = Inr () \<or> raises_ValueError (Message_check m)"
  unfolding Message_check_def
  by (intro and_then_cases block_cases)

text \<open>Whatever \<open>_check\<close> raises is a \<open>ValueError\<close>, and it raises on a violation only.\<close>

lemma Message_check_raises_iff:
  "raises_ValueError (Message_check m) \<longleftrightarrow> violated_invariant m"
  using Message_check_cases [of m] Message_check_ok [of m]
  by auto

text \<open>
  The constructor raises a \<open>ValueError\<close> in two ways: the conversion of \<open>data\<close> raises
  one, or the payload is stored, \<open>check\<close> is true and the stored fields violate an
  invariant.
\<close>

lemma Message_init_raises_iff:
  "raises_ValueError (Message_init kw) \<longleftrightarrow>
     raises_ValueError (init_data (kw_data kw) (kw_is_remote_frame kw))
     \<or> (\<exists>bs. init_data (kw_data kw) (kw_is_remote_frame kw) = Inr bs
              \<and> kw_check kw \<and> violated_invariant (init_fields kw bs))"
proof (cases "init_data (kw_data kw) (kw_is_remote_frame kw)")
  case (Inl e)
  then show ?thesis
    by (simp add: Message_init_def raises_ValueError_Inl)
next
  case (Inr bs)
  show ?thesis
  proof (cases "kw_check kw")
    case False
    with Inr show ?thesis
      by (simp add: Message_init_def)
  next
    case True
    have "raises_ValueError (Message_init kw)
            = raises_ValueError (Message_check (init_fields kw bs))"
      using Inr True
      by (cases "Message_check (init_fields kw bs)")
         (simp_all add: Message_init_def raises_ValueError_Inl)
    with Inr True show ?thesis
      by (simp add: Message_check_raises_iff)
  qed
qed

text \<open>
  The conversion raises no \<open>ValueError\<close> for an omitted payload, a remote frame, a
  \<open>bytes\<close> object, a \<open>bytearray\<close>, or integers that are all bytes.
\<close>

lemma init_data_empty:
  "d = None \<or> r \<Longrightarrow> init_data d r = Inr []"
  by (cases d) (auto simp: init_data_def)

lemma init_data_bytes:
  "init_data (Some (PyBytes bs)) False = Inr bs"
  "init_data (Some (PyByteArray bs)) False = Inr bs"
  "list_all (\<lambda>x. 0 \<le> x \<and> x < 256) xs
     \<Longrightarrow> init_data (Some (PyInts xs)) False = Inr (map word_of_int xs)"
  by (simp_all add: init_data_def)

text \<open>
  Claim C1. The constructor raises a \<open>ValueError\<close> if and only if \<open>check\<close> is true
  and an invariant is violated; without \<open>check\<close> it never raises one. The code does not
  keep this: \<open>Message(data=[256])\<close>, with \<open>check\<close> omitted, raises the \<open>ValueError\<close>
  of \<open>bytearray([256])\<close>, which the handler for \<open>TypeError\<close> lets through.
\<close>

theorem Message_init_unchecked_ValueError:
  "kw_check (default_kwargs\<lparr>kw_data := Some (PyInts [256])\<rparr>) = False
   \<and> Message_init (default_kwargs\<lparr>kw_data := Some (PyInts [256])\<rparr>)
       = Inl (ValueError ''byte must be in range(0, 256)'')"
  by (simp add: Message_init_def init_data_def default_kwargs_def)

section \<open>Equality of frames\<close>

lemma equals_by_value_spec:
  "equals_by_value a b td cc cd = equals_spec a b td cc cd"
  unfolding equals_by_value_def equals_spec_def exact_fields_match_def within_delta_def
  by (cases cc; cases cd) auto

lemma equals_distinct_differing_timestamp:
  assumes "x < length h" and "y < length h" and "x \<noteq> y"
    and "h ! y = (h ! x)\<lparr>timestamp := t\<rparr>"
  shows "equals h x y (Some delta) True True
           = Some (float_le (float_abs (float_sub (timestamp (h ! x)) t)) delta)"
  using assms by (simp add: equals_def equals_by_value_def)

text \<open>
  \<open>equals\<close> compares the rounded difference, as the code does: the timestamps
  \<open>9007199254740994.0\<close> and \<open>1.0\<close> are within \<open>9007199254740992.0\<close> of each other,
  and two timestamps whose exact difference is a quarter of a unit in the last place
  above \<open>1.0e-6\<close> are within the default tolerance.
\<close>

lemma float_sub_default_delta_example:
  "float_sub (Fin 4722366482869646 (- 72)) (Fin 3 (- 74)) = Fin 4722366482869645 (- 72)"
  by code_simp

lemma equals_follows_rounding:
  "equals [default_message\<lparr>timestamp := Fin 4503599627370497 1\<rparr>,
           default_message\<lparr>timestamp := Fin 4503599627370496 (- 52)\<rparr>] 0 1
     (Some (Fin 4503599627370496 1)) True True = Some True"
  "equals [default_message\<lparr>timestamp := Fin 4722366482869646 (- 72)\<rparr>,
           default_message\<lparr>timestamp := Fin 3 (- 74)\<rparr>] 0 1
     default_timestamp_delta True True = Some True"
  by (simp_all add: equals_def equals_by_value_def default_timestamp_delta_def float_1e_6_def
        float_sub_rounds_to_even float_sub_default_delta_example scaled_def
        del: float_sub.simps)

text \<open>
  Claim C2. For two frames \<open>x\<close> and \<open>y\<close> of the store and any \<open>timestamp_delta\<close>,
  \<open>check_channel\<close> and \<open>check_direction\<close>, \<open>x.equals(y, ...)\<close> is true if and only if
  \<open>x\<close> and \<open>y\<close> are the same instance, or the nine exact fields match, the channel
  matches unless \<open>check_channel\<close> is false, \<open>is_rx\<close> matches unless
  \<open>check_direction\<close> is false, and the absolute difference of the timestamps, as the
  floating-point subtraction gives it, is at most \<open>timestamp_delta\<close> unless that is
  \<open>None\<close>. The default tolerance is \<open>1.0e-6\<close>: two distinct frames that are
  identical except for timestamps whose difference is \<open>2e-6\<close>, or any double above
  \<open>1.0e-6\<close> and at most \<open>1e-5\<close>, are not equal with the default tolerance and are
  equal with a tolerance of \<open>1e-5\<close>.
\<close>

theorem equals_value_equality:
  assumes "x < length h" and "y < length h"
  shows "equals h x y td cc cd = Some (x = y \<or> equals_spec (h ! x) (h ! y) td cc cd)
       \<and> default_timestamp_delta = Some float_1e_6
       \<and> (x \<noteq> y \<and> h ! y = (h ! x)\<lparr>timestamp := t\<rparr>
            \<and> float_eq (float_abs (float_sub (timestamp (h ! x)) t)) float_2e_6
          \<longrightarrow> equals h x y default_timestamp_delta True True = Some False
              \<and> equals h x y (Some float_1e_5) True True = Some True)
       \<and> (x \<noteq> y \<and> h ! y = (h ! x)\<lparr>timestamp := t\<rparr>
            \<and> float_lt float_1e_6 (float_abs (float_sub (timestamp (h ! x)) t))
            \<and> float_le (float_abs (float_sub (timestamp (h ! x)) t)) float_1e_5
          \<longrightarrow> equals h x y default_timestamp_delta True True = Some False
              \<and> equals h x y (Some float_1e_5) True True = Some True)"
proof (intro conjI impI)
  show "equals h x y td cc cd = Some (x = y \<or> equals_spec (h ! x) (h ! y) td cc cd)"
    using assms by (simp add: equals_def equals_by_value_spec)
  show "default_timestamp_delta = Some float_1e_6"
    by (simp add: default_timestamp_delta_def)
next
  let ?d = "float_abs (float_sub (timestamp (h ! x)) t)"
  assume a: "x \<noteq> y \<and> h ! y = (h ! x)\<lparr>timestamp := t\<rparr> \<and> float_eq ?d float_2e_6"
  then have eq: "\<And>delta. equals h x y (Some delta) True True = Some (float_le ?d delta)"
    using assms equals_distinct_differing_timestamp by blast
  from a have le6: "float_le ?d float_1e_6 = float_le float_2e_6 float_1e_6"
    and le5: "float_le ?d float_1e_5 = float_le float_2e_6 float_1e_5"
    unfolding float_2e_6_def float_1e_6_def float_1e_5_def
    by (simp_all only: float_eq_le_cong)
  show "equals h x y default_timestamp_delta True True = Some False"
    using literal_order(3) by (simp add: default_timestamp_delta_def eq le6)
  show "equals h x y (Some float_1e_5) True True = Some True"
    using literal_order(2) by (simp add: eq le5)
next
  let ?d = "float_abs (float_sub (timestamp (h ! x)) t)"
  assume a: "x \<noteq> y \<and> h ! y = (h ! x)\<lparr>timestamp := t\<rparr>
      \<and> float_lt float_1e_6 ?d \<and> float_le ?d float_1e_5"
  then have eq: "\<And>delta. equals h x y (Some delta) True True = Some (float_le ?d delta)"
    using assms equals_distinct_differing_timestamp by blast
  show "equals h x y default_timestamp_delta True True = Some False"
    using a float_lt_not_le [of float_1e_6 ?d] by (simp add: default_timestamp_delta_def eq)
  show "equals h x y (Some float_1e_5) True True = Some True"
    using a by (simp add: eq)
qed

theorem equals_value_equality_witness:
  "equals [default_message, default_message\<lparr>timestamp := float_2e_6\<rparr>] 0 1
       default_timestamp_delta True True = Some False
   \<and> equals [default_message, default_message\<lparr>timestamp := float_2e_6\<rparr>] 0 1
       (Some float_1e_5) True True = Some True
   \<and> equals [default_message\<lparr>timestamp := Fin 7130316800000000 (- 22)\<rparr>,
              default_message\<lparr>timestamp := Fin 7130316800000008 (- 22)\<rparr>] 0 1
       default_timestamp_delta True True = Some False
   \<and> equals [default_message\<lparr>timestamp := Fin 7130316800000000 (- 22)\<rparr>,
              default_message\<lparr>timestamp := Fin 7130316800000008 (- 22)\<rparr>] 0 1
       (Some float_1e_5) True True = Some True"
proof -
  let ?h1 = "[default_message, default_message\<lparr>timestamp := float_2e_6\<rparr>]"
  let ?h2 = "[default_message\<lparr>timestamp := Fin 7130316800000000 (- 22)\<rparr>,
              default_message\<lparr>timestamp := Fin 7130316800000008 (- 22)\<rparr>]"
  have sub1: "float_sub (Fin 0 0) (Fin 4722366482869645 (- 71))
                = Fin (- 4722366482869645) (- 71)"
    by code_simp
  have d1: "float_eq (float_abs (float_sub (timestamp (?h1 ! 0)) float_2e_6)) float_2e_6"
    by (simp add: default_message_def float_zero_def float_2e_6_def sub1 scaled_def
          del: float_sub.simps)
  have d2: "float_lt float_1e_6
              (float_abs (float_sub (timestamp (?h2 ! 0)) (Fin 7130316800000008 (- 22))))
          \<and> float_le
              (float_abs (float_sub (timestamp (?h2 ! 0)) (Fin 7130316800000008 (- 22))))
              float_1e_5"
    by (simp add: float_sub_exact_example float_1e_6_def float_1e_5_def scaled_def
          del: float_sub.simps)
  have r1: "equals ?h1 0 1 default_timestamp_delta True True = Some False
          \<and> equals ?h1 0 1 (Some float_1e_5) True True = Some True"
    using equals_value_equality [of 0 ?h1 1 None True True float_2e_6] d1 by simp
  have r2: "equals ?h2 0 1 default_timestamp_delta True True = Some False
          \<and> equals ?h2 0 1 (Some float_1e_5) True True = Some True"
    using equals_value_equality [of 0 ?h2 1 None True True "Fin 7130316800000008 (- 22)"] d2
    by simp
  from r1 r2 show ?thesis by simp
qed

lemma Message_init_default: "Message_init default_kwargs = Inr default_message"
  by (simp add: Message_init_def init_data_def init_fields_def default_kwargs_def
        default_message_def)

text \<open>
  Claim C7. The default comparison of two frames is by identity only: for two distinct
  instances whose fields are all identical, \<open>==\<close> is false. Their equality by value is
  what \<open>equals\<close> gives: true with the comparison of timestamps switched off, and true
  with the default tolerance when the timestamp is a finite number.
\<close>

theorem Message_eq_identity_only:
  assumes "x < length h" and "y < length h" and "x \<noteq> y" and "h ! x = h ! y"
  shows "\<not> Message_eq x y
       \<and> equals h x y None cc cd = Some True
       \<and> (\<not> isinf (timestamp (h ! x)) \<and> \<not> isnan (timestamp (h ! x))
            \<longrightarrow> equals h x y default_timestamp_delta cc cd = Some True)"
  using assms within_default_delta_refl [of "timestamp (h ! y)"]
  by (simp add: Message_eq_def equals_def equals_by_value_def default_timestamp_delta_def)

theorem Message_eq_identity_only_witness:
  "Message_new [] default_kwargs = Inr ([default_message], 0)
   \<and> Message_new [default_message] default_kwargs
       = Inr ([default_message, default_message], 1)
   \<and> \<not> Message_eq 0 1
   \<and> equals [default_message, default_message] 0 1 None True True = Some True
   \<and> equals [default_message, default_message] 0 1 default_timestamp_delta True True
       = Some True"
  using Message_eq_identity_only [of 0 "[default_message, default_message]" 1 True True]
  by (simp add: Message_new_def Message_init_default default_message_def float_zero_def)

section \<open>Payload and length code of a constructed frame\<close>

lemma Message_init_Inr:
  assumes "Message_init kw = Inr m"
  shows "\<exists>bs. init_data (kw_data kw) (kw_is_remote_frame kw) = Inr bs \<and> m = init_fields kw bs"
  using assms
  by (cases "init_data (kw_data kw) (kw_is_remote_frame kw)")
     (auto simp: Message_init_def Let_def split: if_splits sum.splits)

text \<open>
  Claim C8. For every construction of a frame: if \<open>data\<close> is omitted or
  \<open>is_remote_frame\<close> is true, the stored payload is empty, whatever \<open>data\<close> was
  supplied; and if \<open>dlc\<close> is omitted, the stored length code is the length of the stored
  payload, hence 0 for a remote frame. Such a construction returns whenever \<open>check\<close> is
  not set.
\<close>

theorem init_payload_and_dlc:
  "(Message_init kw = Inr m \<longrightarrow>
      (kw_data kw = None \<or> kw_is_remote_frame kw \<longrightarrow> data m = [])
      \<and> (kw_dlc kw = None \<longrightarrow> dlc m = int (length (data m)))
      \<and> (kw_dlc kw = None \<and> kw_is_remote_frame kw \<longrightarrow> dlc m = 0))
   \<and> ((kw_data kw = None \<or> kw_is_remote_frame kw) \<and> \<not> kw_check kw \<longrightarrow>
        (\<exists>m'. Message_init kw = Inr m' \<and> data m' = []
              \<and> (kw_dlc kw = None \<longrightarrow> dlc m' = 0)))"
proof (intro conjI impI)
  assume "Message_init kw = Inr m"
  then obtain bs where bs: "init_data (kw_data kw) (kw_is_remote_frame kw) = Inr bs"
    and m: "m = init_fields kw bs"
    using Message_init_Inr by blast
  show "dlc m = int (length (data m))" if "kw_dlc kw = None"
    using that m by (simp add: init_fields_def)
  show e: "data m = []" if "kw_data kw = None \<or> kw_is_remote_frame kw"
    using that bs m init_data_empty [of "kw_data kw" "kw_is_remote_frame kw"]
    by (simp add: init_fields_def)
  show "dlc m = 0" if "kw_dlc kw = None \<and> kw_is_remote_frame kw"
    using that e m by (simp add: init_fields_def)
next
  assume a: "(kw_data kw = None \<or> kw_is_remote_frame kw) \<and> \<not> kw_check kw"
  then have "init_data (kw_data kw) (kw_is_remote_frame kw) = Inr []"
    using init_data_empty by blast
  with a show "\<exists>m'. Message_init kw = Inr m' \<and> data m' = [] \<and> (kw_dlc kw = None \<longrightarrow> dlc m' = 0)"
    by (simp add: Message_init_def init_fields_def)
qed

theorem init_payload_and_dlc_witness:
  "Message_init (default_kwargs\<lparr>kw_is_remote_frame := True,
                                kw_data := Some (PyInts [1, 2, 3])\<rparr>)
     = Inr (default_message\<lparr>is_remote_frame := True\<rparr>)
   \<and> data (default_message\<lparr>is_remote_frame := True\<rparr>) = []
   \<and> dlc (default_message\<lparr>is_remote_frame := True\<rparr>) = 0
   \<and> Message_init (default_kwargs\<lparr>kw_id := 0x123, kw_data := Some (PyInts [1, 2, 3])\<rparr>)
     = Inr (default_message\<lparr>can_id := 0x123, dlc := 3, data := [1, 2, 3]\<rparr>)"
  using init_payload_and_dlc
      [of "default_kwargs\<lparr>kw_is_remote_frame := True, kw_data := Some (PyInts [1, 2, 3])\<rparr>"
          "default_message\<lparr>is_remote_frame := True\<rparr>"]
    init_payload_and_dlc
      [of "default_kwargs\<lparr>kw_id := 0x123, kw_data := Some (PyInts [1, 2, 3])\<rparr>"
          "default_message\<lparr>can_id := 0x123, dlc := 3, data := [1, 2, 3]\<rparr>"]
  by (simp add: Message_init_def init_data_def init_fields_def default_kwargs_def
        default_message_def)

text \<open>
  Claim C9, as the code has it. For every frame \<open>m\<close> whose length code lies between 0
  and \<open>sys.maxsize\<close>, \<open>len(m)\<close> returns \<open>m.dlc\<close>, which is what \<open>__len__\<close> returns
  for every frame, and not the length of the payload: a remote frame built with such a
  nonzero \<open>dlc\<close> has a nonzero length although its payload is empty.
\<close>

theorem len_is_dlc:
  assumes "0 \<le> dlc m" and "dlc m \<le> maxsize"
  shows "len_builtin maxsize m = Inr (dlc m)
       \<and> Message_len m = dlc m
       \<and> (Message_init kw = Inr m \<and> kw_is_remote_frame kw \<and> kw_dlc kw = Some n \<and> n \<noteq> 0
            \<longrightarrow> len_builtin maxsize m = Inr n \<and> data m = []
                \<and> len_builtin maxsize m \<noteq> Inr (int (length (data m))))"
proof (intro conjI impI)
  show l: "len_builtin maxsize m = Inr (dlc m)"
    using assms by (simp add: len_builtin_def Message_len_def)
  show "Message_len m = dlc m" by (simp add: Message_len_def)
  assume a: "Message_init kw = Inr m \<and> kw_is_remote_frame kw \<and> kw_dlc kw = Some n \<and> n \<noteq> 0"
  then obtain bs where bs: "init_data (kw_data kw) (kw_is_remote_frame kw) = Inr bs"
    and m: "m = init_fields kw bs"
    using Message_init_Inr by blast
  from a bs have "bs = []"
    using init_data_empty [of "kw_data kw" "kw_is_remote_frame kw"] by simp
  with a m l show "len_builtin maxsize m = Inr n" "data m = []"
    "len_builtin maxsize m \<noteq> Inr (int (length (data m)))"
    by (simp_all add: init_fields_def)
qed

theorem len_is_dlc_witness:
  "Message_init (default_kwargs\<lparr>kw_is_remote_frame := True, kw_dlc := Some 8\<rparr>)
     = Inr (default_message\<lparr>is_remote_frame := True, dlc := 8\<rparr>)
   \<and> len_builtin (2 ^ 63 - 1) (default_message\<lparr>is_remote_frame := True, dlc := 8\<rparr>) = Inr 8
   \<and> data (default_message\<lparr>is_remote_frame := True, dlc := 8\<rparr>) = []"
  using len_is_dlc
      [of "default_message\<lparr>is_remote_frame := True, dlc := 8\<rparr>" "2 ^ 63 - 1"
          "default_kwargs\<lparr>kw_is_remote_frame := True, kw_dlc := Some 8\<rparr>" 8]
  by (simp add: Message_init_def init_data_def init_fields_def default_kwargs_def
        default_message_def)

text \<open>
  The claim as the specification words it, for every frame, fails: a frame may be built
  with any length code when \<open>check\<close> is not set, and \<open>len\<close> raises a \<open>ValueError\<close>
  for a negative one and an \<open>OverflowError\<close> for one above \<open>sys.maxsize\<close>.
\<close>

theorem len_is_dlc_counterexample:
  "Message_init (default_kwargs\<lparr>kw_dlc := Some (- 1)\<rparr>)
     = Inr (default_message\<lparr>dlc := - 1\<rparr>)
   \<and> len_builtin (2 ^ 63 - 1) (default_message\<lparr>dlc := - 1\<rparr>)
     = Inl (ValueError ''__len__() should return >= 0'')
   \<and> Message_init (default_kwargs\<lparr>kw_dlc := Some (2 ^ 63)\<rparr>)
     = Inr (default_message\<lparr>dlc := 2 ^ 63\<rparr>)
   \<and> len_builtin (2 ^ 63 - 1) (default_message\<lparr>dlc := 2 ^ 63\<rparr>)
     = Inl (OverflowError ''cannot fit 'int' into an index-sized integer'')"
  by (simp add: Message_init_def init_data_def init_fields_def default_kwargs_def
        default_message_def len_builtin_def Message_len_def)

section \<open>Length code and padding of a \<open>LinMessage\<close>\<close>

lemma LinMessage_init_explicit:
  assumes "bytearray d = Inr bs"
  shows "LinMessage_init ident d (Some k) fl ts crc info =
           Inr \<lparr> lin_id = ident,
                 lin_data = (if k \<le> 8 then bs @ replicate (nat (k - int (length bs))) 0
                             else bs),
                 lin_dlc = k, lin_flags = fl, lin_crc = crc, lin_info = info,
                 lin_timestamp = ts \<rparr>"
  using assms by (simp add: LinMessage_init_def extend_zeros_def Let_def)

lemma LinMessage_init_omitted:
  assumes "bytearray d = Inr bs"
  shows "LinMessage_init ident d None fl ts crc info =
           Inr \<lparr> lin_id = ident,
                 lin_data = bs @ replicate
                              (nat (dlc_of_len (int (length bs)) - int (length bs))) 0,
                 lin_dlc = dlc_of_len (int (length bs)), lin_flags = fl, lin_crc = crc,
                 lin_info = info, lin_timestamp = ts \<rparr>"
  using assms by (simp add: LinMessage_init_def extend_zeros_def Let_def)

text \<open>
  Claim C3, as the code has it. For every \<open>LinMessage\<close> built with an explicit \<open>dlc\<close>
  from a payload that converts to bytes: if \<open>dlc <= 8\<close>, the stored payload is the input
  followed by \<open>dlc - len(input)\<close> zero bytes when that is positive and the input itself
  otherwise, so its length is the larger of \<open>dlc\<close> and \<open>len(input)\<close>, and is \<open>dlc\<close>
  when the input has at most \<open>dlc\<close> bytes; if \<open>dlc > 8\<close>, the stored payload is the
  input unchanged.
\<close>

theorem explicit_dlc_padding:
  assumes "bytearray d = Inr bs"
  shows "\<exists>m. LinMessage_init ident d (Some k) fl ts crc info = Inr m \<and> lin_dlc m = k
          \<and> (k \<le> 8 \<longrightarrow> lin_data m = bs @ replicate (nat (k - int (length bs))) 0
                     \<and> int (length (lin_data m)) = max k (int (length bs)))
          \<and> (k \<le> 8 \<and> int (length bs) \<le> k \<longrightarrow> int (length (lin_data m)) = k)
          \<and> (k > 8 \<longrightarrow> lin_data m = bs)"
  unfolding LinMessage_init_explicit [OF assms] by auto

theorem explicit_dlc_padding_witness:
  "(\<exists>m. LinMessage_init 1 (PyInts [1, 2, 3]) (Some 5) 0 None None None = Inr m
        \<and> lin_data m = [1, 2, 3, 0, 0] \<and> length (lin_data m) = 5)
   \<and> (\<exists>m. LinMessage_init 1 (PyInts [1, 2, 3]) (Some 12) 0 None None None = Inr m
        \<and> lin_data m = [1, 2, 3])"
  using explicit_dlc_padding [of "PyInts [1, 2, 3]" "[1, 2, 3]" 1 5 0 None None None]
    explicit_dlc_padding [of "PyInts [1, 2, 3]" "[1, 2, 3]" 1 12 0 None None None]
  by (auto simp: numeral_eq_Suc)

text \<open>
  The claim as the specification words it, that an explicit \<open>dlc <= 8\<close> leaves exactly
  \<open>dlc\<close> bytes, fails: \<open>LinMessage(1, [1, 2, 3], dlc=2)\<close> keeps its three bytes.
\<close>

theorem explicit_dlc_padding_counterexample:
  "LinMessage_init 1 (PyInts [1, 2, 3]) (Some 2) 0 None None None =
     Inr \<lparr> lin_id = 1, lin_data = [1, 2, 3], lin_dlc = 2, lin_flags = 0, lin_crc = None,
           lin_info = None, lin_timestamp = None \<rparr>
   \<and> int (length [1, 2, 3 :: byte]) \<noteq> 2"
  by (simp add: LinMessage_init_def extend_zeros_def)

lemma dlc_of_len_ladder:
  assumes "0 \<le> n" and "n \<le> 64"
  shows "dlc_of_len n \<in> set ladder" and "n \<le> dlc_of_len n"
    and "\<forall>k\<in>set ladder. n \<le> k \<longrightarrow> dlc_of_len n \<le> k"
  using assms unfolding dlc_of_len_def ladder_def by (auto split: if_splits)

lemma dlc_of_len_bands:
  "n \<le> 8 \<Longrightarrow> dlc_of_len n = n"
  "9 \<le> n \<Longrightarrow> n \<le> 12 \<Longrightarrow> dlc_of_len n = 12"
  "13 \<le> n \<Longrightarrow> n \<le> 16 \<Longrightarrow> dlc_of_len n = 16"
  "17 \<le> n \<Longrightarrow> n \<le> 20 \<Longrightarrow> dlc_of_len n = 20"
  "21 \<le> n \<Longrightarrow> n \<le> 24 \<Longrightarrow> dlc_of_len n = 24"
  "25 \<le> n \<Longrightarrow> n \<le> 32 \<Longrightarrow> dlc_of_len n = 32"
  "33 \<le> n \<Longrightarrow> n \<le> 48 \<Longrightarrow> dlc_of_len n = 48"
  "49 \<le> n \<Longrightarrow> dlc_of_len n = 64"
  by (simp_all add: dlc_of_len_def)

text \<open>
  Claim C4. For every \<open>LinMessage\<close> built without \<open>dlc\<close> from a payload of \<open>n <= 64\<close>
  bytes, the computed length code is \<open>n\<close> rounded up to the ladder, that is the least
  value of the ladder that is at least \<open>n\<close>: lengths up to 8 map to themselves, 9 to 12
  map to 12, 13 to 16 to 16, 17 to 20 to 20, 21 to 24 to 24, 25 to 32 to 32, 33 to 48 to
  48 and 49 to 64 to 64; the stored payload is the input padded with zero bytes on the
  right to exactly that many bytes. The nine bytes 1 to 9 give \<open>dlc = 12\<close> and three
  zero bytes of padding.
\<close>

theorem computed_dlc_ladder:
  assumes "bytearray d = Inr bs" and "length bs \<le> 64"
  shows "\<exists>m. LinMessage_init ident d None fl ts crc info = Inr m
          \<and> lin_dlc m \<in> set ladder \<and> int (length bs) \<le> lin_dlc m
          \<and> (\<forall>k\<in>set ladder. int (length bs) \<le> k \<longrightarrow> lin_dlc m \<le> k)
          \<and> (length bs \<le> 8 \<longrightarrow> lin_dlc m = int (length bs))
          \<and> (9 \<le> length bs \<and> length bs \<le> 12 \<longrightarrow> lin_dlc m = 12)
          \<and> (13 \<le> length bs \<and> length bs \<le> 16 \<longrightarrow> lin_dlc m = 16)
          \<and> (17 \<le> length bs \<and> length bs \<le> 20 \<longrightarrow> lin_dlc m = 20)
          \<and> (21 \<le> length bs \<and> length bs \<le> 24 \<longrightarrow> lin_dlc m = 24)
          \<and> (25 \<le> length bs \<and> length bs \<le> 32 \<longrightarrow> lin_dlc m = 32)
          \<and> (33 \<le> length bs \<and> length bs \<le> 48 \<longrightarrow> lin_dlc m = 48)
          \<and> (49 \<le> length bs \<and> length bs \<le> 64 \<longrightarrow> lin_dlc m = 64)
          \<and> lin_data m = bs @ replicate (nat (lin_dlc m) - length bs) 0
          \<and> int (length (lin_data m)) = lin_dlc m"
proof -
  let ?n = "int (length bs)"
  have n: "0 \<le> ?n" "?n \<le> 64" using assms(2) by simp_all
  have pad: "nat (dlc_of_len ?n - ?n) = nat (dlc_of_len ?n) - length bs"
    by (simp add: nat_diff_distrib')
  have len: "int (length bs + (nat (dlc_of_len ?n) - length bs)) = dlc_of_len ?n"
    using dlc_of_len_ladder(2) [OF n] by simp
  show ?thesis
    unfolding LinMessage_init_omitted [OF assms(1)]
    using dlc_of_len_ladder [OF n] pad len
    by (simp add: dlc_of_len_bands)
qed

theorem computed_dlc_ladder_witness:
  "LinMessage_init 1 (PyInts [1, 2, 3, 4, 5, 6, 7, 8, 9]) None 0 None None None =
     Inr \<lparr> lin_id = 1, lin_data = [1, 2, 3, 4, 5, 6, 7, 8, 9, 0, 0, 0], lin_dlc = 12,
           lin_flags = 0, lin_crc = None, lin_info = None, lin_timestamp = None \<rparr>"
  using computed_dlc_ladder [of "PyInts [1, 2, 3, 4, 5, 6, 7, 8, 9]"
      "[1, 2, 3, 4, 5, 6, 7, 8, 9]" 1 0 None None None]
  by (simp add: LinMessage_init_def dlc_of_len_def extend_zeros_def numeral_eq_Suc)

text \<open>
  Claim C10. The construction of a \<open>LinMessage\<close> never truncates the payload: for every
  payload that converts to bytes and every \<open>dlc\<close>, omitted or explicit, the construction
  returns, the input bytes are a prefix of the stored payload and the stored payload is
  at least as long as the input; an explicit \<open>dlc <= 8\<close> below the length of the input
  leaves the payload as it was, longer than \<open>dlc\<close>.
\<close>

theorem no_truncation:
  assumes "bytearray d = Inr bs"
  shows "\<exists>m. LinMessage_init ident d dlc_arg fl ts crc info = Inr m
          \<and> prefix bs (lin_data m) \<and> length bs \<le> length (lin_data m)
          \<and> (\<forall>k. dlc_arg = Some k \<and> k \<le> 8 \<and> k < int (length bs)
                 \<longrightarrow> lin_data m = bs \<and> lin_dlc m < int (length (lin_data m)))"
proof (cases dlc_arg)
  case None
  then show ?thesis
    unfolding None LinMessage_init_omitted [OF assms] by simp
next
  case (Some k)
  then show ?thesis
    unfolding Some LinMessage_init_explicit [OF assms] by simp
qed

theorem no_truncation_witness:
  "LinMessage_init 7 (PyBytes [1, 2, 3]) (Some 2) 0 None None None =
     Inr \<lparr> lin_id = 7, lin_data = [1, 2, 3], lin_dlc = 2, lin_flags = 0, lin_crc = None,
           lin_info = None, lin_timestamp = None \<rparr>
   \<and> prefix [1, 2, 3 :: byte] [1, 2, 3]"
  using no_truncation [of "PyBytes [1, 2, 3]" "[1, 2, 3]" 7 "Some 2" 0 None None None]
  by (simp add: LinMessage_init_def extend_zeros_def)

section \<open>Equality of \<open>LinMessage\<close>\<close>

lemma py_eq_opt_val [simp]:
  "py_eq (opt_val VInt a) (opt_val VInt b) = (a = b)"
  "py_eq (opt_val VRef r) (opt_val VRef s) = (r = s)"
  by (cases a; cases b; simp add: opt_val_def)
     (cases r; cases s; simp add: opt_val_def)

text \<open>
  Claim C6. For two \<open>LinMessage\<close> objects \<open>x\<close> and \<open>y\<close>, \<open>x == y\<close> is true if and only
  if each of the six fields before \<open>timestamp\<close> in the declared order, \<open>id\<close>, \<open>data\<close>,
  \<open>dlc\<close>, \<open>flags\<close>, \<open>crc\<close> and \<open>info\<close>, is equal in \<open>x\<close> and \<open>y\<close>. The comparison is
  exact, and the timestamps play no part in it.
\<close>

theorem LinMessage_eq_all_but_timestamp:
  "eq_slots = [''id'', ''data'', ''dlc'', ''flags'', ''crc'', ''info'']
   \<and> LinMessage_eq x y =
       (lin_id x = lin_id y \<and> lin_data x = lin_data y \<and> lin_dlc x = lin_dlc y
        \<and> lin_flags x = lin_flags y \<and> lin_crc x = lin_crc y \<and> lin_info x = lin_info y)
   \<and> LinMessage_eq (x\<lparr>lin_timestamp := s\<rparr>) (y\<lparr>lin_timestamp := t\<rparr>) = LinMessage_eq x y"
  by (simp add: LinMessage_eq_def eq_slots_def slots_def getattr_def)

end
